theory Spec2Isabelle
  imports Complex_Main
begin

section \<open>Python values used by the application\<close>

subsection \<open>Floats\<close>

text \<open>
  A Python \<^verbatim>\<open>float\<close> is an IEEE 754 binary64 number. A finite one is carried by its
  exact rational value; the two infinities and the NaN are constructors of their own. The
  sign of a zero is not kept: no comparison of the program can tell the two zeros apart, and
  a division by either of them raises.
\<close>

datatype pyfloat = Fin rat | PInf | NInf | NaN

text \<open>Rounding a rational to the nearest integer, a tie going to the even neighbour.\<close>

definition round_half_even :: "rat \<Rightarrow> int" where
  "round_half_even q =
     (let f = \<lfloor>q\<rfloor>; r = q - of_int f
      in if r < 1 / 2 then f else if 1 / 2 < r then f + 1 else if even f then f else f + 1)"

definition pow2 :: "int \<Rightarrow> rat" where
  "pow2 e = (if 0 \<le> e then 2 ^ nat e else 1 / 2 ^ nat (- e))"

fun bit_length :: "nat \<Rightarrow> nat" where
  "bit_length n = (if n = 0 then 0 else Suc (bit_length (n div 2)))"

declare bit_length.simps [simp del]

text \<open>The binary exponent of a positive rational: \<open>pow2 (ilog2 q) \<le> q < pow2 (ilog2 q + 1)\<close>.\<close>

definition ilog2 :: "rat \<Rightarrow> int" where
  "ilog2 q =
     (if 1 \<le> q then int (bit_length (nat \<lfloor>q\<rfloor>)) - 1
      else - int (bit_length (nat (\<lceil>1 / q\<rceil> - 1))))"

text \<open>
  The binary64 number nearest to a rational (round to nearest, ties to even): 53 significant
  bits, the exponent not below that of the subnormal range, and an infinity once the rounded
  value reaches \<open>2 ^ 1024\<close>. Every arithmetic operation on floats ends with this step.
\<close>

definition round_double :: "rat \<Rightarrow> pyfloat" where
  "round_double q =
     (if q = 0 then Fin 0
      else
        let e = max (ilog2 \<bar>q\<bar>) (- 1022);
            ulp = pow2 (e - 52);
            v = of_int (round_half_even (q / ulp)) * ulp
        in if pow2 1024 \<le> v then PInf else if v \<le> - pow2 1024 then NInf else Fin v)"

text \<open>Comparisons: every comparison with a NaN is false.\<close>

fun float_lt :: "pyfloat \<Rightarrow> pyfloat \<Rightarrow> bool" where
  "float_lt (Fin a) (Fin b) = (a < b)"
| "float_lt (Fin a) PInf = True"
| "float_lt (Fin a) NInf = False"
| "float_lt (Fin a) NaN = False"
| "float_lt PInf b = False"
| "float_lt NInf (Fin b) = True"
| "float_lt NInf PInf = True"
| "float_lt NInf NInf = False"
| "float_lt NInf NaN = False"
| "float_lt NaN b = False"

definition float_eq :: "pyfloat \<Rightarrow> pyfloat \<Rightarrow> bool" where
  "float_eq a b = (a \<noteq> NaN \<and> a = b)"

definition float_le :: "pyfloat \<Rightarrow> pyfloat \<Rightarrow> bool" where
  "float_le a b = (float_lt a b \<or> float_eq a b)"

definition float_gt :: "pyfloat \<Rightarrow> pyfloat \<Rightarrow> bool" where
  "float_gt a b = float_lt b a"

definition float_ge :: "pyfloat \<Rightarrow> pyfloat \<Rightarrow> bool" where
  "float_ge a b = float_le b a"

text \<open>Exceptions raised by the code and by the operations it calls.\<close>

datatype error = ValueError string | ZeroDivisionError

text \<open>
  The quotient of IEEE 754 for a divisor that is not zero, and Python's \<^verbatim>\<open>/\<close>, which
  raises on a zero divisor instead of returning an infinity or a NaN.
\<close>

fun ieee_div :: "pyfloat \<Rightarrow> pyfloat \<Rightarrow> pyfloat" where
  "ieee_div (Fin a) (Fin b) = round_double (a / b)"
| "ieee_div (Fin a) PInf = Fin 0"
| "ieee_div (Fin a) NInf = Fin 0"
| "ieee_div (Fin a) NaN = NaN"
| "ieee_div PInf (Fin b) = (if 0 \<le> b then PInf else NInf)"
| "ieee_div NInf (Fin b) = (if 0 \<le> b then NInf else PInf)"
| "ieee_div PInf b = NaN"
| "ieee_div NInf b = NaN"
| "ieee_div NaN b = NaN"

definition truediv :: "pyfloat \<Rightarrow> pyfloat \<Rightarrow> error + pyfloat" where
  "truediv a b = (if float_eq b (Fin 0) then Inl ZeroDivisionError else Inr (ieee_div a b))"

fun float_mul :: "pyfloat \<Rightarrow> pyfloat \<Rightarrow> pyfloat" where
  "float_mul (Fin a) (Fin b) = round_double (a * b)"
| "float_mul (Fin a) PInf = (if a = 0 then NaN else if 0 < a then PInf else NInf)"
| "float_mul (Fin a) NInf = (if a = 0 then NaN else if 0 < a then NInf else PInf)"
| "float_mul (Fin a) NaN = NaN"
| "float_mul PInf (Fin b) = (if b = 0 then NaN else if 0 < b then PInf else NInf)"
| "float_mul NInf (Fin b) = (if b = 0 then NaN else if 0 < b then NInf else PInf)"
| "float_mul PInf PInf = PInf"
| "float_mul PInf NInf = NInf"
| "float_mul NInf PInf = NInf"
| "float_mul NInf NInf = PInf"
| "float_mul PInf NaN = NaN"
| "float_mul NInf NaN = NaN"
| "float_mul NaN b = NaN"

text \<open>
  Python's \<^verbatim>\<open>round(x, ndigits)\<close> on a float, for \<open>ndigits \<ge> 0\<close>: the exact value of
  \<open>x\<close> is rounded to \<open>ndigits\<close> decimal places, a tie going to the even digit, and the
  decimal number so obtained is converted back to the nearest float. An infinity and a NaN
  are returned as they are. The conversion back cannot overflow for two decimal places (a
  float of magnitude \<open>2 ^ 53\<close> or more is an integer and is returned as it is), so the
  \<^verbatim>\<open>OverflowError\<close> of \<^verbatim>\<open>round\<close> is not a result here.
\<close>

definition py_round :: "pyfloat \<Rightarrow> nat \<Rightarrow> pyfloat" where
  "py_round x ndigits =
     (case x of
        Fin q \<Rightarrow> round_double (of_int (round_half_even (q * 10 ^ ndigits)) / 10 ^ ndigits)
      | _ \<Rightarrow> x)"

subsection \<open>Integers and floats as text\<close>

definition digit_char :: "nat \<Rightarrow> char" where
  "digit_char d = ''0123456789'' ! d"

fun str_nat :: "nat \<Rightarrow> string" where
  "str_nat n = (if n < 10 then [digit_char n] else str_nat (n div 10) @ [digit_char (n mod 10)])"

declare str_nat.simps [simp del]

text \<open>Python's \<^verbatim>\<open>str\<close> on an \<^verbatim>\<open>int\<close>, which an f-string applies to an integer field.\<close>

definition str_int :: "int \<Rightarrow> string" where
  "str_int i = (if i < 0 then CHR ''-'' # str_nat (nat (- i)) else str_nat (nat i))"

text \<open>
  Python's \<^verbatim>\<open>str\<close> on a float (the same text as \<^verbatim>\<open>repr\<close>): the shortest string of
  decimal digits that reads back as the same float, written in positional notation when the
  decimal point falls within the 16 leading digits or at most four places to their left,
  and in exponent notation otherwise. The decision logic below takes the conversion as a
  parameter, so what is proved of it holds for any conversion; \<open>float_repr\<close> is the one the
  examples are evaluated with.
\<close>

definition pow10 :: "int \<Rightarrow> rat" where
  "pow10 e = (if 0 \<le> e then 10 ^ nat e else 1 / 10 ^ nat (- e))"

fun dec_length :: "nat \<Rightarrow> nat" where
  "dec_length n = (if n = 0 then 0 else Suc (dec_length (n div 10)))"

declare dec_length.simps [simp del]

text \<open>The position of the decimal point: \<open>pow10 (decimal_point q - 1) \<le> q < pow10 (decimal_point q)\<close>.\<close>

definition decimal_point :: "rat \<Rightarrow> int" where
  "decimal_point q =
     (if 1 \<le> q then int (dec_length (nat \<lfloor>q\<rfloor>))
      else 1 - int (dec_length (nat (\<lceil>1 / q\<rceil> - 1))))"

text \<open>
  The digits: with \<open>n\<close> digits, then \<open>n + 1\<close>, and so on, the nearest decimal number is
  tried until one reads back as \<open>q\<close>; the result \<open>(m, p)\<close> stands for \<open>m * 10 ^ p\<close>.
  Seventeen digits always read back.
\<close>

fun shortest_digits :: "rat \<Rightarrow> int \<Rightarrow> nat \<Rightarrow> nat \<Rightarrow> int \<times> int" where
  "shortest_digits q decpt n 0 = (round_half_even (q / pow10 (decpt - int n)), decpt - int n)"
| "shortest_digits q decpt n (Suc fuel) =
     (let p = decpt - int n; m = round_half_even (q / pow10 p)
      in if round_double (of_int m * pow10 p) = Fin q then (m, p)
         else shortest_digits q decpt (Suc n) fuel)"

definition strip_zeros :: "string \<Rightarrow> string" where
  "strip_zeros s = rev (dropWhile (\<lambda>c. c = CHR ''0'') (rev s))"

definition repr_finite :: "rat \<Rightarrow> string" where
  "repr_finite q =
     (let (m, p) = shortest_digits q (decimal_point q) 1 16;
          all_digits = str_nat (nat m);
          ds = strip_zeros all_digits;
          decpt = p + int (length all_digits)
      in if decpt \<le> - 4 \<or> 16 < decpt then
           hd ds # (if tl ds = [] then [] else CHR ''.'' # tl ds)
             @ ''e'' @ (if decpt - 1 < 0 then ''-'' else ''+'')
             @ (if \<bar>decpt - 1\<bar> < 10 then ''0'' else []) @ str_nat (nat \<bar>decpt - 1\<bar>)
         else if decpt \<le> 0 then ''0.'' @ replicate (nat (- decpt)) CHR ''0'' @ ds
         else if int (length ds) \<le> decpt then
           ds @ replicate (nat decpt - length ds) CHR ''0'' @ ''.0''
         else take (nat decpt) ds @ ''.'' @ drop (nat decpt) ds)"

definition float_repr :: "pyfloat \<Rightarrow> string" where
  "float_repr x =
     (case x of
        Fin q \<Rightarrow>
          if q = 0 then ''0.0'' else if q < 0 then ''-'' @ repr_finite (- q) else repr_finite q
      | PInf \<Rightarrow> ''inf''
      | NInf \<Rightarrow> ''-inf''
      | NaN \<Rightarrow> ''nan'')"

section \<open>The debt-to-income ratio\<close>

text \<open>
  \<^verbatim>\<open>calculate_dti\<close>. Both arguments are floats, as annotated; the literals \<^verbatim>\<open>0\<close> and
  \<^verbatim>\<open>100\<close> are converted to floats exactly. The division cannot raise after the check of
  the income, but it is kept as the fallible operation it is.
\<close>

definition calculate_dti :: "pyfloat \<Rightarrow> pyfloat \<Rightarrow> error + pyfloat" where
  "calculate_dti monthly_debts monthly_income =
     (if float_le monthly_income (Fin 0)
      then Inl (ValueError ''Monthly income must be greater than zero'')
      else
        (case truediv monthly_debts monthly_income of
           Inl e \<Rightarrow> Inl e
         | Inr q \<Rightarrow> Inr (py_round (float_mul q (Fin 100)) 2)))"

section \<open>The models of \<^verbatim>\<open>app/models.py\<close>\<close>

text \<open>
  \<^verbatim>\<open>LoanApplicationRequest\<close>. A Python string is a sequence of code points, and the
  length limits of the name count code points, so the name is a list of them.
\<close>

type_synonym unicode = "nat list"

record LoanApplicationRequest =
  applicant_name :: unicode
  monthly_income :: pyfloat
  monthly_debts :: pyfloat
  credit_score :: int
  loan_amount :: pyfloat

text \<open>\<^verbatim>\<open>LoanDecisionResponse\<close>.\<close>

record LoanDecisionResponse =
  decision :: string
  message :: string
  dti_ratio :: pyfloat
  credit_score :: int

section \<open>The decision\<close>

text \<open>
  \<^verbatim>\<open>evaluate_application\<close>. The second message formats the float \<^verbatim>\<open>dti\<close> with Python's
  \<^verbatim>\<open>str\<close>; that conversion is the parameter \<open>float_str\<close>.
\<close>

definition evaluate_application ::
  "(pyfloat \<Rightarrow> string) \<Rightarrow> LoanApplicationRequest \<Rightarrow> error + LoanDecisionResponse" where
  "evaluate_application float_str application =
     (case calculate_dti (monthly_debts application) (monthly_income application) of
        Inl e \<Rightarrow> Inl e
      | Inr dti \<Rightarrow>
          if LoanApplicationRequest.credit_score application < 600 then
            Inr \<lparr>decision = ''declined'',
                 message = ''Credit score of ''
                   @ str_int (LoanApplicationRequest.credit_score application)
                   @ '' is below minimum requirement of 600.'',
                 dti_ratio = dti,
                 credit_score = LoanApplicationRequest.credit_score application\<rparr>
          else if float_gt dti (Fin 45) then
            Inr \<lparr>decision = ''declined'',
                 message = ''Debt-to-income ratio of '' @ float_str dti
                   @ ''% exceeds maximum of 45%.'',
                 dti_ratio = dti,
                 credit_score = LoanApplicationRequest.credit_score application\<rparr>
          else
            Inr \<lparr>decision = ''approved'',
                 message = ''Applicant approved based on healthy DTI and credit score.'',
                 dti_ratio = dti,
                 credit_score = LoanApplicationRequest.credit_score application\<rparr>)"

section \<open>Validation of a request\<close>

text \<open>
  The field constraints of \<^verbatim>\<open>LoanApplicationRequest\<close> are declared with \<^verbatim>\<open>Field\<close> and
  checked when the model is built from the request body: each field is checked on its own,
  the first constraint a value violates is reported under the name of the field, and the
  model is built only when no field is reported. A bound is met only when the comparison
  with it is true, so a NaN meets none. The input is a body whose fields are present and of
  the declared types.
\<close>

datatype error_type =
  string_too_short | string_too_long | greater_than | greater_than_equal | less_than_equal
  | value_error

type_synonym error_details = "(string \<times> error_type) list"

text \<open>The validator \<^verbatim>\<open>validate_credit_score\<close> of the class.\<close>

definition validate_credit_score :: "int \<Rightarrow> error + int" where
  "validate_credit_score v =
     (if v < 300 \<or> v > 850 then Inl (ValueError ''Credit score must be between 300 and 850'')
      else Inr v)"

text \<open>\<^verbatim>\<open>applicant_name: str = Field(..., min_length=2, max_length=100)\<close>\<close>

definition check_applicant_name :: "unicode \<Rightarrow> error_type option" where
  "check_applicant_name v =
     (if length v < 2 then Some string_too_short
      else if 100 < length v then Some string_too_long
      else None)"

text \<open>\<^verbatim>\<open>monthly_income: float = Field(..., gt=0)\<close>\<close>

definition check_monthly_income :: "pyfloat \<Rightarrow> error_type option" where
  "check_monthly_income v = (if float_gt v (Fin 0) then None else Some greater_than)"

text \<open>\<^verbatim>\<open>monthly_debts: float = Field(..., ge=0)\<close>\<close>

definition check_monthly_debts :: "pyfloat \<Rightarrow> error_type option" where
  "check_monthly_debts v = (if float_ge v (Fin 0) then None else Some greater_than_equal)"

text \<open>
  \<^verbatim>\<open>credit_score: int = Field(..., ge=300, le=850)\<close>; the validator of the class runs on a
  value that met both bounds.
\<close>

definition check_credit_score :: "int \<Rightarrow> error_type option" where
  "check_credit_score v =
     (if \<not> 300 \<le> v then Some greater_than_equal
      else if \<not> v \<le> 850 then Some less_than_equal
      else (case validate_credit_score v of Inl e \<Rightarrow> Some value_error | Inr v' \<Rightarrow> None))"

text \<open>\<^verbatim>\<open>loan_amount: float = Field(..., gt=0)\<close>\<close>

definition check_loan_amount :: "pyfloat \<Rightarrow> error_type option" where
  "check_loan_amount v = (if float_gt v (Fin 0) then None else Some greater_than)"

definition report :: "string \<Rightarrow> error_type option \<Rightarrow> error_details" where
  "report loc r = (case r of None \<Rightarrow> [] | Some t \<Rightarrow> [(loc, t)])"

definition field_errors :: "LoanApplicationRequest \<Rightarrow> error_details" where
  "field_errors body =
     report ''applicant_name'' (check_applicant_name (applicant_name body))
     @ report ''monthly_income'' (check_monthly_income (monthly_income body))
     @ report ''monthly_debts'' (check_monthly_debts (monthly_debts body))
     @ report ''credit_score'' (check_credit_score (LoanApplicationRequest.credit_score body))
     @ report ''loan_amount'' (check_loan_amount (loan_amount body))"

definition model_validate :: "LoanApplicationRequest \<Rightarrow> error_details + LoanApplicationRequest" where
  "model_validate body = (if field_errors body = [] then Inr body else Inl (field_errors body))"

text \<open>A request that passes the validation.\<close>

definition valid_request :: "LoanApplicationRequest \<Rightarrow> bool" where
  "valid_request application = (model_validate application = Inr application)"

section \<open>The endpoints of \<^verbatim>\<open>app/main.py\<close>\<close>

datatype http_error =
  Forbidden string | UnprocessableEntity error_details | InternalServerError error

text \<open>\<^verbatim>\<open>verify_api_key\<close> of \<^verbatim>\<open>app/auth.py\<close>; the key read from the environment is \<open>API_KEY\<close>.\<close>

definition verify_api_key :: "string \<Rightarrow> string option \<Rightarrow> http_error + string" where
  "verify_api_key API_KEY api_key =
     (case api_key of
        None \<Rightarrow> Inl (Forbidden ''API Key is missing. Please provide X-API-Key in headers.'')
      | Some k \<Rightarrow> if k \<noteq> API_KEY then Inl (Forbidden ''Invalid API Key'') else Inr k)"

text \<open>
  \<^verbatim>\<open>simulate_approval\<close>: the key is checked, the body is validated, and only a validated
  request is evaluated. An exception of the evaluation is answered as a server error. The
  local \<^verbatim>\<open>decision\<close> of the source is \<open>result\<close> here.
\<close>

definition simulate_approval ::
  "string \<Rightarrow> (pyfloat \<Rightarrow> string) \<Rightarrow> string option \<Rightarrow> LoanApplicationRequest
     \<Rightarrow> http_error + LoanDecisionResponse" where
  "simulate_approval API_KEY float_str api_key body =
     (case verify_api_key API_KEY api_key of
        Inl e \<Rightarrow> Inl e
      | Inr k \<Rightarrow>
          (case model_validate body of
             Inl errors \<Rightarrow> Inl (UnprocessableEntity errors)
           | Inr application \<Rightarrow>
               (case evaluate_application float_str application of
                  Inl e \<Rightarrow> Inl (InternalServerError e)
                | Inr result \<Rightarrow> Inr result)))"

text \<open>
  \<^verbatim>\<open>LoanApplication\<close>, the stored row. The table is the list of its rows in the order of
  insertion; a time is a number of seconds.
\<close>

type_synonym datetime = int

record LoanApplication =
  id' :: "int option"
  applicant_name :: unicode
  monthly_income :: pyfloat
  monthly_debts :: pyfloat
  credit_score :: int
  loan_amount :: pyfloat
  dti_ratio :: pyfloat
  decision :: string
  decision_message :: string
  created_at :: datetime

text \<open>The key the database gives to a new row: one more than the largest key in use.\<close>

definition next_id :: "LoanApplication list \<Rightarrow> int" where
  "next_id table = fold max (map (\<lambda>r. case id' r of None \<Rightarrow> 0 | Some i \<Rightarrow> i) table) 0 + 1"

text \<open>\<^verbatim>\<open>session.add\<close>, \<^verbatim>\<open>session.commit\<close> and \<^verbatim>\<open>session.refresh\<close>: the row is stored under a new key.\<close>

definition add_commit_refresh ::
  "LoanApplication \<Rightarrow> LoanApplication list \<Rightarrow> LoanApplication \<times> LoanApplication list" where
  "add_commit_refresh row table =
     (let stored = row\<lparr>id' := Some (next_id table)\<rparr> in (stored, table @ [stored]))"

text \<open>The dictionary \<^verbatim>\<open>create_application\<close> returns.\<close>

record created =
  id' :: "int option"
  decision :: string
  message :: string
  dti_ratio :: pyfloat
  created_at :: datetime

text \<open>
  \<^verbatim>\<open>create_application\<close>; \<open>now\<close> is the time \<^verbatim>\<open>datetime.utcnow\<close> gives when the row is
  built. The result is the answer together with the table as the call leaves it.
\<close>

definition create_application ::
  "string \<Rightarrow> (pyfloat \<Rightarrow> string) \<Rightarrow> datetime \<Rightarrow> string option \<Rightarrow> LoanApplicationRequest
     \<Rightarrow> LoanApplication list \<Rightarrow> (http_error + created) \<times> LoanApplication list" where
  "create_application API_KEY float_str now api_key body table =
     (case verify_api_key API_KEY api_key of
        Inl e \<Rightarrow> (Inl e, table)
      | Inr k \<Rightarrow>
          (case model_validate body of
             Inl errors \<Rightarrow> (Inl (UnprocessableEntity errors), table)
           | Inr application \<Rightarrow>
               (case evaluate_application float_str application of
                  Inl e \<Rightarrow> (Inl (InternalServerError e), table)
                | Inr result \<Rightarrow>
                    (let db_application =
                           \<lparr>LoanApplication.id' = None,
                            applicant_name = LoanApplicationRequest.applicant_name application,
                            monthly_income = LoanApplicationRequest.monthly_income application,
                            monthly_debts = LoanApplicationRequest.monthly_debts application,
                            credit_score = LoanApplicationRequest.credit_score application,
                            loan_amount = LoanApplicationRequest.loan_amount application,
                            dti_ratio = LoanDecisionResponse.dti_ratio result,
                            decision = LoanDecisionResponse.decision result,
                            decision_message = LoanDecisionResponse.message result,
                            created_at = now\<rparr>;
                         (stored, table') = add_commit_refresh db_application table
                     in (Inr \<lparr>created.id' = LoanApplication.id' stored,
                               decision = LoanDecisionResponse.decision result,
                               message = LoanDecisionResponse.message result,
                               dti_ratio = LoanDecisionResponse.dti_ratio result,
                               created_at = LoanApplication.created_at stored\<rparr>,
                         table')))))"

text \<open>The request made of the input fields of a stored row.\<close>

definition stored_request :: "LoanApplication \<Rightarrow> LoanApplicationRequest" where
  "stored_request row =
     \<lparr>LoanApplicationRequest.applicant_name = LoanApplication.applicant_name row,
      LoanApplicationRequest.monthly_income = LoanApplication.monthly_income row,
      LoanApplicationRequest.monthly_debts = LoanApplication.monthly_debts row,
      LoanApplicationRequest.credit_score = LoanApplication.credit_score row,
      LoanApplicationRequest.loan_amount = LoanApplication.loan_amount row\<rparr>"

section \<open>The ratio as the specification writes it\<close>

text \<open>
  The specification gives the ratio as the Python expression
  \<^verbatim>\<open>round(debts/income*100, 2)\<close>; this is that expression, evaluated as Python does.
\<close>

definition round_expression :: "pyfloat \<Rightarrow> pyfloat \<Rightarrow> error + pyfloat" where
  "round_expression debts income =
     (case truediv debts income of
        Inl e \<Rightarrow> Inl e
      | Inr q \<Rightarrow> Inr (py_round (float_mul q (Fin 100)) 2))"

section \<open>Example requests\<close>

text \<open>The three applications of \<^verbatim>\<open>tests/test_api.py\<close>.\<close>

definition request_john_doe :: LoanApplicationRequest where
  "request_john_doe =
     \<lparr>LoanApplicationRequest.applicant_name = map of_char ''John Doe'',
      LoanApplicationRequest.monthly_income = Fin 5000,
      LoanApplicationRequest.monthly_debts = Fin 1500,
      LoanApplicationRequest.credit_score = 720,
      LoanApplicationRequest.loan_amount = Fin 250000\<rparr>"

definition request_jane_smith :: LoanApplicationRequest where
  "request_jane_smith =
     \<lparr>LoanApplicationRequest.applicant_name = map of_char ''Jane Smith'',
      LoanApplicationRequest.monthly_income = Fin 5000,
      LoanApplicationRequest.monthly_debts = Fin 1500,
      LoanApplicationRequest.credit_score = 550,
      LoanApplicationRequest.loan_amount = Fin 250000\<rparr>"

definition request_bob_johnson :: LoanApplicationRequest where
  "request_bob_johnson =
     \<lparr>LoanApplicationRequest.applicant_name = map of_char ''Bob Johnson'',
      LoanApplicationRequest.monthly_income = Fin 5000,
      LoanApplicationRequest.monthly_debts = Fin 2500,
      LoanApplicationRequest.credit_score = 720,
      LoanApplicationRequest.loan_amount = Fin 250000\<rparr>"

text \<open>A body of which every field is out of range.\<close>

definition request_out_of_range :: LoanApplicationRequest where
  "request_out_of_range =
     \<lparr>LoanApplicationRequest.applicant_name = map of_char ''J'',
      LoanApplicationRequest.monthly_income = Fin 0,
      LoanApplicationRequest.monthly_debts = Fin (- 1),
      LoanApplicationRequest.credit_score = 900,
      LoanApplicationRequest.loan_amount = Fin 0\<rparr>"

section \<open>Evaluation on numerals\<close>

lemma floor_rat_numeral [simp]:
  "\<lfloor>(numeral a :: rat) / numeral b\<rfloor> = numeral a div numeral b"
  "\<lfloor>- ((numeral a :: rat) / numeral b)\<rfloor> = - numeral a div numeral b"
  "\<lfloor>(1 :: rat) / numeral b\<rfloor> = 1 div numeral b"
  "\<lfloor>- ((1 :: rat) / numeral b)\<rfloor> = - 1 div numeral b"
  using floor_divide_of_int_eq [of "numeral a" "numeral b", where ?'a = rat]
    floor_divide_of_int_eq [of "- numeral a" "numeral b", where ?'a = rat]
    floor_divide_of_int_eq [of 1 "numeral b", where ?'a = rat]
    floor_divide_of_int_eq [of "- 1" "numeral b", where ?'a = rat]
  by simp_all

lemma bit_length_0 [simp]: "bit_length 0 = 0"
  by (subst bit_length.simps) simp

lemma bit_length_1 [simp]: "bit_length (Suc 0) = Suc 0"
  by (subst bit_length.simps) simp

lemma bit_length_numeral [simp]:
  "bit_length (numeral k) = Suc (bit_length (numeral k div 2))"
  by (subst bit_length.simps) simp

lemma dec_length_0 [simp]: "dec_length 0 = 0"
  by (subst dec_length.simps) simp

lemma dec_length_1 [simp]: "dec_length (Suc 0) = Suc 0"
  by (subst dec_length.simps) simp

lemma dec_length_numeral [simp]:
  "dec_length (numeral k) = Suc (dec_length (numeral k div 10))"
  by (subst dec_length.simps) simp

lemma str_nat_numeral [simp]:
  "str_nat (numeral k) =
     (if numeral k < (10::nat) then [digit_char (numeral k)]
      else str_nat (numeral k div 10) @ [digit_char (numeral k mod 10)])"
  by (subst str_nat.simps) simp

lemma str_nat_0 [simp]: "str_nat 0 = ''0''"
  by (subst str_nat.simps) (simp add: digit_char_def)

lemma str_nat_1 [simp]: "str_nat (Suc 0) = ''1''"
  by (subst str_nat.simps) (simp add: digit_char_def)

lemma shortest_digits_numeral [simp]:
  "shortest_digits q decpt n (numeral k) =
     (let p = decpt - int n; m = round_half_even (q / pow10 p)
      in if round_double (of_int m * pow10 p) = Fin q then (m, p)
         else shortest_digits q decpt (Suc n) (pred_numeral k))"
  by (simp only: numeral_eq_Suc shortest_digits.simps)

lemmas float_eval = round_double_def ilog2_def pow2_def round_half_even_def Let_def ceiling_def
  py_round_def truediv_def float_eq_def float_le_def float_gt_def float_ge_def

lemmas repr_eval = float_repr_def repr_finite_def decimal_point_def pow10_def strip_zeros_def
  digit_char_def str_int_def

lemmas validate_eval = valid_request_def model_validate_def field_errors_def report_def
  check_applicant_name_def check_monthly_income_def check_monthly_debts_def
  check_credit_score_def check_loan_amount_def validate_credit_score_def

section \<open>Facts about the float model\<close>

text \<open>Rounding to the nearest integer: a tie goes to the even neighbour, and the result is within one half.\<close>

lemma round_half_even_tie:
  assumes "q = of_int k + 1 / 2"
  shows "round_half_even q = (if even k then k else k + 1)"
proof -
  have "\<lfloor>q\<rfloor> = k"
    using assms by (simp add: floor_unique)
  then show ?thesis
    using assms by (simp add: round_half_even_def Let_def)
qed

lemma round_half_even_near: "\<bar>of_int (round_half_even q) - q\<bar> \<le> 1 / 2"
proof -
  have "of_int \<lfloor>q\<rfloor> \<le> q" and "q < of_int \<lfloor>q\<rfloor> + 1"
    by linarith+
  then show ?thesis
    by (auto simp: round_half_even_def Let_def abs_le_iff)
qed

text \<open>The binary exponent is the one the definition of \<open>ilog2\<close> announces.\<close>

lemma bit_length_bounds:
  "0 < n \<Longrightarrow> 2 ^ bit_length n \<le> 2 * n \<and> n < 2 ^ bit_length n"
proof (induction n rule: bit_length.induct)
  case (1 n)
  show ?case
  proof (cases "n div 2 = 0")
    case True
    with "1.prems" have "n = 1"
      by (simp add: div_eq_0_iff) 
    then show ?thesis
      by simp
  next
    case False
    with 1 have ih: "2 ^ bit_length (n div 2) \<le> 2 * (n div 2)"
      "n div 2 < 2 ^ bit_length (n div 2)"
      by simp_all
    have b: "bit_length n = Suc (bit_length (n div 2))"
      using "1.prems" by (subst bit_length.simps) simp
    from ih show ?thesis
      unfolding b by (simp; linarith)
  qed
qed

lemma pow2_nat: "pow2 (int n) = 2 ^ n"
  by (simp add: pow2_def)

lemma pow2_neg_nat: "pow2 (- int n) = 1 / 2 ^ n"
  by (cases n) (simp_all add: pow2_def nat_add_distrib)

lemma pow2_Suc: "pow2 (e + 1) = 2 * pow2 e"
proof (cases "0 \<le> e")
  case True
  then show ?thesis
    by (simp add: pow2_def nat_add_distrib)
next
  case False
  then obtain n where e: "e = - int (Suc n)"
    by (metis add.inverse_inverse int_cases neg_0_le_iff_le not_le of_nat_0_le_iff
        zero_less_Suc nat_code(2) of_nat_Suc not0_implies_Suc of_nat_0)
  have "pow2 (e + 1) = 1 / 2 ^ n"
    using pow2_neg_nat [of n] by (simp add: e)
  moreover have "pow2 e = 1 / 2 ^ Suc n"
    unfolding e by (rule pow2_neg_nat)
  ultimately show ?thesis
    by simp
qed

lemma ilog2_bounds:
  assumes "0 < q"
  shows "pow2 (ilog2 q) \<le> q \<and> q < pow2 (ilog2 q + 1)"
proof (cases "1 \<le> q")
  case True
  define n where "n = nat \<lfloor>q\<rfloor>"
  have n: "0 < n" "of_nat n \<le> q" "q < of_nat n + 1"
    using True by (simp_all add: n_def le_floor_iff) linarith+
  from bit_length_bounds [OF n(1)]
  have b: "(2::rat) ^ bit_length n \<le> 2 * of_nat n" "(of_nat n :: rat) < 2 ^ bit_length n"
    by (metis of_nat_le_iff of_nat_mult of_nat_numeral of_nat_power,
        metis of_nat_less_iff of_nat_numeral of_nat_power)
  have pos: "0 < bit_length n"
    using n(1) by (subst bit_length.simps) simp
  have i: "ilog2 q = int (bit_length n) - 1"
    using True by (simp add: ilog2_def n_def)
  have s: "pow2 (ilog2 q + 1) = 2 ^ bit_length n"
    unfolding i using pow2_nat [of "bit_length n"] by simp
  have "of_nat n + 1 \<le> (2::rat) ^ bit_length n"
    using bit_length_bounds [OF n(1)]
    by (metis Suc_leI of_nat_Suc of_nat_le_iff of_nat_numeral of_nat_power add.commute
        of_nat_1 of_nat_add)
  with n have up: "q < pow2 (ilog2 q + 1)"
    unfolding s by linarith
  have "2 * pow2 (ilog2 q) = 2 ^ bit_length n"
    using s pow2_Suc [of "ilog2 q"] by simp
  with b n have "pow2 (ilog2 q) \<le> q"
    by linarith
  with up show ?thesis by simp
next
  case False
  define m where "m = nat (\<lceil>1 / q\<rceil> - 1)"
  have inv: "1 < 1 / q"
    using assms False by (simp add: field_simps)
  then have c2: "2 \<le> \<lceil>1 / q\<rceil>"
    using less_ceiling_iff [of 1 "1 / q"] by simp
  then have m: "0 < m" "of_nat m < 1 / q" "1 / q \<le> of_nat m + 1"
    unfolding m_def by (simp_all add: less_ceiling_iff) linarith+
  from bit_length_bounds [OF m(1)]
  have b: "(2::rat) ^ bit_length m \<le> 2 * of_nat m"
    by (metis of_nat_le_iff of_nat_mult of_nat_numeral of_nat_power)
  have b': "of_nat m + 1 \<le> (2::rat) ^ bit_length m"
    using bit_length_bounds [OF m(1)]
    by (metis Suc_leI of_nat_Suc of_nat_le_iff of_nat_numeral of_nat_power add.commute
        of_nat_1 of_nat_add)
  have i: "ilog2 q = - int (bit_length m)"
    using False by (simp add: ilog2_def m_def)
  have lo: "pow2 (ilog2 q) = 1 / 2 ^ bit_length m"
    unfolding i by (rule pow2_neg_nat)
  have "1 / q \<le> 2 ^ bit_length m"
    using m b' by linarith
  then have l: "pow2 (ilog2 q) \<le> q"
    unfolding lo using assms by (simp add: field_simps)
  have "(2::rat) ^ bit_length m < 2 * (1 / q)"
    using m b by linarith
  then have "q < 2 * (1 / 2 ^ bit_length m)"
    using assms by (simp add: field_simps)
  then have "q < pow2 (ilog2 q + 1)"
    unfolding pow2_Suc lo .
  with l show ?thesis by simp
qed

lemma pow2_pos: "0 < pow2 e"
  by (simp add: pow2_def)

lemma pow2_add_nat: "pow2 (e + int k) = 2 ^ k * pow2 e"
proof (induction k)
  case 0
  show ?case by simp
next
  case (Suc k)
  have "e + int (Suc k) = e + int k + 1"
    by simp
  then have "pow2 (e + int (Suc k)) = pow2 (e + int k + 1)"
    by (rule arg_cong)
  also have "\<dots> = 2 * pow2 (e + int k)"
    by (rule pow2_Suc)
  finally show ?case
    by (simp add: Suc.IH)
qed

lemma pow2_mono: "a \<le> b \<Longrightarrow> pow2 a \<le> pow2 b"
proof (induction "nat (b - a)" arbitrary: b)
  case 0
  then show ?case by simp
next
  case (Suc n)
  then have "n = nat (b - 1 - a)" and "a \<le> b - 1"
    by linarith+
  then have "pow2 a \<le> pow2 (b - 1)"
    by (rule Suc.hyps(1))
  also have "\<dots> \<le> pow2 b"
    using pow2_Suc [of "b - 1"] pow2_pos [of "b - 1"] by simp
  finally show ?case .
qed

text \<open>
  A finite result of \<open>round_double\<close> is a multiple of the unit in the last place with a
  significand of at most 53 bits, and no such multiple is nearer to the argument.
\<close>

lemma round_double_nearest:
  assumes "q \<noteq> 0" and "round_double q = Fin v"
  defines "ulp \<equiv> pow2 (max (ilog2 \<bar>q\<bar>) (- 1022) - 52)"
  shows "\<exists>m. v = of_int m * ulp \<and> \<bar>m\<bar> \<le> 2 ^ 53 \<and> \<bar>v - q\<bar> \<le> ulp / 2"
proof -
  define m where "m = round_half_even (q / ulp)"
  have ulp: "0 < ulp"
    unfolding ulp_def by (rule pow2_pos)
  have v: "v = of_int m * ulp"
    using assms(1,2) unfolding round_double_def m_def ulp_def Let_def
    by (simp split: if_splits)
  have near: "\<bar>of_int m - q / ulp\<bar> \<le> 1 / 2"
    unfolding m_def by (rule round_half_even_near)
  have "v - q = (of_int m - q / ulp) * ulp"
    using ulp by (simp add: v left_diff_distrib)
  then have "\<bar>v - q\<bar> = \<bar>of_int m - q / ulp\<bar> * ulp"
    using ulp by (simp add: abs_mult)
  with near ulp have err: "\<bar>v - q\<bar> \<le> ulp / 2"
    by (simp add: mult_right_mono)
  have "\<bar>q\<bar> < pow2 (ilog2 \<bar>q\<bar> + 1)"
    using ilog2_bounds [of "\<bar>q\<bar>"] assms(1) by simp
  also have "\<dots> \<le> pow2 (max (ilog2 \<bar>q\<bar>) (- 1022) + 1)"
    by (rule pow2_mono) simp
  also have "\<dots> = 2 ^ 53 * ulp"
  proof -
    have "max (ilog2 \<bar>q\<bar>) (- 1022) + 1 = max (ilog2 \<bar>q\<bar>) (- 1022) - 52 + int 53"
      by simp
    then have "pow2 (max (ilog2 \<bar>q\<bar>) (- 1022) + 1) =
        pow2 (max (ilog2 \<bar>q\<bar>) (- 1022) - 52 + int 53)"
      by (rule arg_cong)
    also have "\<dots> = 2 ^ 53 * ulp"
      unfolding ulp_def by (rule pow2_add_nat)
    finally show ?thesis .
  qed
  finally have "\<bar>q / ulp\<bar> < 2 ^ 53"
    using ulp by (simp add: abs_mult field_simps abs_of_pos)
  with near have "\<bar>rat_of_int m\<bar> < 2 ^ 53 + 1"
    by linarith
  then have "\<bar>m\<bar> < 2 ^ 53 + 1"
    by (metis (mono_tags) of_int_abs of_int_less_iff of_int_numeral of_int_power of_int_add
        of_int_1)
  then have "\<bar>m\<bar> \<le> 2 ^ 53"
    by simp
  with v err show ?thesis
    by blast
qed

section \<open>Facts about the comparisons and the ratio\<close>

lemma float_gt_zero_not_le: "float_gt x (Fin 0) \<Longrightarrow> \<not> float_le x (Fin 0)"
  by (cases x) (auto simp: float_gt_def float_le_def float_eq_def)

lemma float_le_imp_not_gt: "float_le x y \<Longrightarrow> \<not> float_gt x y"
  by (cases x; cases y) (auto simp: float_gt_def float_le_def float_eq_def)

lemma calculate_dti_error:
  "float_le i (Fin 0) \<Longrightarrow>
   calculate_dti d i = Inl (ValueError ''Monthly income must be greater than zero'')"
  by (simp add: calculate_dti_def)

lemma calculate_dti_success:
  "\<not> float_le i (Fin 0) \<Longrightarrow>
   calculate_dti d i = Inr (py_round (float_mul (ieee_div d i) (Fin 100)) 2)"
  by (simp add: calculate_dti_def truediv_def float_le_def)

lemma valid_request_iff:
  "valid_request a \<longleftrightarrow>
     2 \<le> length (LoanApplicationRequest.applicant_name a)
     \<and> length (LoanApplicationRequest.applicant_name a) \<le> 100
     \<and> float_gt (LoanApplicationRequest.monthly_income a) (Fin 0)
     \<and> float_ge (LoanApplicationRequest.monthly_debts a) (Fin 0)
     \<and> 300 \<le> LoanApplicationRequest.credit_score a
     \<and> LoanApplicationRequest.credit_score a \<le> 850
     \<and> float_gt (LoanApplicationRequest.loan_amount a) (Fin 0)"
  by (auto simp: validate_eval split: if_splits)

lemma valid_request_income:
  "valid_request a \<Longrightarrow> \<not> float_le (LoanApplicationRequest.monthly_income a) (Fin 0)"
  by (simp add: valid_request_iff float_gt_zero_not_le)

section \<open>The decision rules\<close>

text \<open>
  C1. A valid request whose credit score is below 600 is declined with the message about the
  credit score, whatever the ratio is: the ratio is computed and carried by the result, but
  the score is tested first, so this message wins also when the ratio is above 45.
\<close>

theorem low_credit_score_declined:
  assumes "valid_request a" and "LoanApplicationRequest.credit_score a < 600"
  shows "\<exists>dti.
    calculate_dti (LoanApplicationRequest.monthly_debts a)
      (LoanApplicationRequest.monthly_income a) = Inr dti
    \<and> evaluate_application float_str a =
        Inr \<lparr>LoanDecisionResponse.decision = ''declined'',
             LoanDecisionResponse.message =
               ''Credit score of '' @ str_int (LoanApplicationRequest.credit_score a)
               @ '' is below minimum requirement of 600.'',
             LoanDecisionResponse.dti_ratio = dti,
             LoanDecisionResponse.credit_score = LoanApplicationRequest.credit_score a\<rparr>"
  using assms
  by (simp add: evaluate_application_def calculate_dti_success valid_request_income)


text \<open>
  The rule at a request with a score of 550 and a ratio of 50: the message is the one about
  the score.
\<close>

theorem low_credit_score_declined_witness:
  "valid_request (request_bob_johnson\<lparr>LoanApplicationRequest.credit_score := 550\<rparr>)
   \<and> LoanApplicationRequest.credit_score
        (request_bob_johnson\<lparr>LoanApplicationRequest.credit_score := 550\<rparr>) < 600
   \<and> calculate_dti (Fin 2500) (Fin 5000) = Inr (Fin 50)
   \<and> float_gt (Fin 50) (Fin 45)
   \<and> evaluate_application float_repr
        (request_bob_johnson\<lparr>LoanApplicationRequest.credit_score := 550\<rparr>) =
      Inr \<lparr>LoanDecisionResponse.decision = ''declined'',
           LoanDecisionResponse.message =
             ''Credit score of 550 is below minimum requirement of 600.'',
           LoanDecisionResponse.dti_ratio = Fin 50,
           LoanDecisionResponse.credit_score = 550\<rparr>"
proof -
  let ?a = "request_bob_johnson\<lparr>LoanApplicationRequest.credit_score := 550\<rparr>"
  have v: "valid_request ?a"
    by (simp add: request_bob_johnson_def validate_eval float_eval)
  have c: "LoanApplicationRequest.credit_score ?a < 600"
    by (simp add: request_bob_johnson_def)
  have d: "calculate_dti (Fin 2500) (Fin 5000) = Inr (Fin 50)"
    by (simp add: calculate_dti_def float_eval)
  have s: "str_int 550 = ''550''"
    by (simp add: repr_eval)
  from low_credit_score_declined [OF v c, of float_repr] d s
  have "evaluate_application float_repr ?a =
      Inr \<lparr>LoanDecisionResponse.decision = ''declined'',
           LoanDecisionResponse.message =
             ''Credit score of 550 is below minimum requirement of 600.'',
           LoanDecisionResponse.dti_ratio = Fin 50,
           LoanDecisionResponse.credit_score = 550\<rparr>"
    by (simp add: request_bob_johnson_def)
  with v c d show ?thesis
    by (simp add: float_gt_def)
qed

text \<open>
  C2. A valid request whose credit score is at least 600 (600 included) is decided by the
  computed ratio alone: declined with the message about the ratio when the ratio is greater
  than 45, approved otherwise; a ratio of exactly 45 is not greater than 45 and is approved.
\<close>

theorem credit_ok_decided_by_dti:
  assumes "valid_request a" and "600 \<le> LoanApplicationRequest.credit_score a"
  shows "\<exists>dti.
    calculate_dti (LoanApplicationRequest.monthly_debts a)
      (LoanApplicationRequest.monthly_income a) = Inr dti
    \<and> (float_gt dti (Fin 45) \<longrightarrow>
         evaluate_application float_str a =
           Inr \<lparr>LoanDecisionResponse.decision = ''declined'',
                LoanDecisionResponse.message =
                  ''Debt-to-income ratio of '' @ float_str dti @ ''% exceeds maximum of 45%.'',
                LoanDecisionResponse.dti_ratio = dti,
                LoanDecisionResponse.credit_score = LoanApplicationRequest.credit_score a\<rparr>)
    \<and> (\<not> float_gt dti (Fin 45) \<longrightarrow>
         evaluate_application float_str a =
           Inr \<lparr>LoanDecisionResponse.decision = ''approved'',
                LoanDecisionResponse.message =
                  ''Applicant approved based on healthy DTI and credit score.'',
                LoanDecisionResponse.dti_ratio = dti,
                LoanDecisionResponse.credit_score = LoanApplicationRequest.credit_score a\<rparr>)
    \<and> (float_le dti (Fin 45) \<longrightarrow> \<not> float_gt dti (Fin 45))"
  using assms
  by (simp add: evaluate_application_def calculate_dti_success valid_request_income
      float_le_imp_not_gt)

text \<open>
  The rule at both boundaries (a score of 600 with a ratio of exactly 45 is approved) and at
  the third application of the tests (a ratio of 50 is declined).
\<close>

theorem credit_ok_decided_by_dti_witness:
  "valid_request (request_john_doe\<lparr>LoanApplicationRequest.monthly_debts := Fin 2250,
       LoanApplicationRequest.credit_score := 600\<rparr>)
   \<and> calculate_dti (Fin 2250) (Fin 5000) = Inr (Fin 45)
   \<and> float_le (Fin 45) (Fin 45)
   \<and> evaluate_application float_repr
        (request_john_doe\<lparr>LoanApplicationRequest.monthly_debts := Fin 2250,
           LoanApplicationRequest.credit_score := 600\<rparr>) =
      Inr \<lparr>LoanDecisionResponse.decision = ''approved'',
           LoanDecisionResponse.message =
             ''Applicant approved based on healthy DTI and credit score.'',
           LoanDecisionResponse.dti_ratio = Fin 45,
           LoanDecisionResponse.credit_score = 600\<rparr>
   \<and> valid_request request_bob_johnson
   \<and> calculate_dti (Fin 2500) (Fin 5000) = Inr (Fin 50)
   \<and> float_gt (Fin 50) (Fin 45)
   \<and> evaluate_application float_repr request_bob_johnson =
      Inr \<lparr>LoanDecisionResponse.decision = ''declined'',
           LoanDecisionResponse.message =
             ''Debt-to-income ratio of 50.0% exceeds maximum of 45%.'',
           LoanDecisionResponse.dti_ratio = Fin 50,
           LoanDecisionResponse.credit_score = 720\<rparr>"
proof -
  let ?a = "request_john_doe\<lparr>LoanApplicationRequest.monthly_debts := Fin 2250,
       LoanApplicationRequest.credit_score := 600\<rparr>"
  have va: "valid_request ?a"
    by (simp add: request_john_doe_def validate_eval float_eval)
  have ca: "600 \<le> LoanApplicationRequest.credit_score ?a"
    by (simp add: request_john_doe_def)
  have da: "calculate_dti (Fin 2250) (Fin 5000) = Inr (Fin 45)"
    by (simp add: calculate_dti_def float_eval)
  have ea: "evaluate_application float_repr ?a =
      Inr \<lparr>LoanDecisionResponse.decision = ''approved'',
           LoanDecisionResponse.message =
             ''Applicant approved based on healthy DTI and credit score.'',
           LoanDecisionResponse.dti_ratio = Fin 45,
           LoanDecisionResponse.credit_score = 600\<rparr>"
    using credit_ok_decided_by_dti [OF va ca, of float_repr] da
    by (simp add: request_john_doe_def float_gt_def)
  have vb: "valid_request request_bob_johnson"
    by (simp add: request_bob_johnson_def validate_eval float_eval)
  have cb: "600 \<le> LoanApplicationRequest.credit_score request_bob_johnson"
    by (simp add: request_bob_johnson_def)
  have db: "calculate_dti (Fin 2500) (Fin 5000) = Inr (Fin 50)"
    by (simp add: calculate_dti_def float_eval)
  have rb: "float_repr (Fin 50) = ''50.0''"
    by (simp add: repr_eval float_eval)
  have eb: "evaluate_application float_repr request_bob_johnson =
      Inr \<lparr>LoanDecisionResponse.decision = ''declined'',
           LoanDecisionResponse.message =
             ''Debt-to-income ratio of 50.0% exceeds maximum of 45%.'',
           LoanDecisionResponse.dti_ratio = Fin 50,
           LoanDecisionResponse.credit_score = 720\<rparr>"
    using credit_ok_decided_by_dti [OF vb cb, of float_repr] db rb
    by (simp add: request_bob_johnson_def float_gt_def)
  from va da ea vb db eb show ?thesis
    by (simp add: float_le_def float_gt_def float_eq_def)
qed


section \<open>The rounding of the ratio\<close>

text \<open>No arithmetic on finite floats gives a NaN.\<close>

lemma round_double_not_nan: "round_double q \<noteq> NaN"
  by (simp add: round_double_def Let_def)

lemma float_mul_hundred_not_nan: "x \<noteq> NaN \<Longrightarrow> float_mul x (Fin 100) \<noteq> NaN"
  by (cases x) (simp_all add: round_double_not_nan)

lemma py_round_not_nan: "x \<noteq> NaN \<Longrightarrow> py_round x n \<noteq> NaN"
  by (cases x) (simp_all add: py_round_def round_double_not_nan)

lemma calculate_dti_not_nan:
  assumes "calculate_dti (Fin d) (Fin i) = Inr r"
  shows "r \<noteq> NaN"
proof -
  have "\<not> float_le (Fin i) (Fin 0)"
    using assms by (auto simp: calculate_dti_def split: if_splits)
  then have "r = py_round (float_mul (ieee_div (Fin d) (Fin i)) (Fin 100)) 2"
    using assms by (simp add: calculate_dti_success)
  then show ?thesis
    by (simp add: py_round_not_nan float_mul_hundred_not_nan round_double_not_nan)
qed

text \<open>
  C3. For an income greater than zero and debts of at least zero, \<^verbatim>\<open>calculate_dti\<close> returns
  the value of the expression \<^verbatim>\<open>round(debts/income*100, 2)\<close>: the quotient of the two
  floats, times 100, rounded to two decimal places. When that product is finite the result
  is the float nearest to a number of hundredths that lies within half a hundredth of it.
  For finite debts and income the value is not a NaN, so the two sides are equal also under
  the equality of Python. The model is a function of the two arguments alone.
\<close>

theorem dti_is_rounded_percentage:
  assumes "float_gt income (Fin 0)" and "float_ge debts (Fin 0)"
  shows "calculate_dti debts income = round_expression debts income
    \<and> calculate_dti debts income =
        Inr (py_round (float_mul (ieee_div debts income) (Fin 100)) 2)
    \<and> (\<forall>v. float_mul (ieee_div debts income) (Fin 100) = Fin v \<longrightarrow>
          (\<exists>k. calculate_dti debts income = Inr (round_double (of_int k / 100))
             \<and> \<bar>of_int k / 100 - v\<bar> \<le> 1 / 200))
    \<and> (\<forall>d i. debts = Fin d \<and> income = Fin i \<longrightarrow>
          (\<exists>r. calculate_dti debts income = Inr r \<and> round_expression debts income = Inr r
             \<and> float_eq r r))"
proof (intro conjI allI impI)
  have nz: "\<not> float_le income (Fin 0)"
    using assms(1) by (rule float_gt_zero_not_le)
  then show eq: "calculate_dti debts income = round_expression debts income"
    by (simp add: calculate_dti_def round_expression_def)
  show ok: "calculate_dti debts income =
      Inr (py_round (float_mul (ieee_div debts income) (Fin 100)) 2)"
    using nz by (rule calculate_dti_success)
  {
    fix v
    assume v: "float_mul (ieee_div debts income) (Fin 100) = Fin v"
    let ?k = "round_half_even (v * 10 ^ 2)"
    have "calculate_dti debts income = Inr (round_double (of_int ?k / 100))"
      using ok v by (simp add: py_round_def)
    moreover have "\<bar>of_int ?k / 100 - v\<bar> \<le> 1 / 200"
      using round_half_even_near [of "v * 10 ^ 2"] by (simp add: abs_le_iff field_simps)
    ultimately show "\<exists>k. calculate_dti debts income = Inr (round_double (of_int k / 100))
        \<and> \<bar>of_int k / 100 - v\<bar> \<le> 1 / 200"
      by blast
  }
  fix d i
  assume fin: "debts = Fin d \<and> income = Fin i"
  let ?r = "py_round (float_mul (ieee_div debts income) (Fin 100)) 2"
  have "?r \<noteq> NaN"
    using ok fin calculate_dti_not_nan by blast
  then have "float_eq ?r ?r"
    by (simp add: float_eq_def)
  with ok eq show "\<exists>r. calculate_dti debts income = Inr r
      \<and> round_expression debts income = Inr r \<and> float_eq r r"
    by auto
qed

text \<open>The ratio of debts of 2000 to an income of 6000 is the float nearest to 33.33.\<close>

theorem dti_is_rounded_percentage_witness:
  "float_gt (Fin 6000) (Fin 0) \<and> float_ge (Fin 2000) (Fin 0)
   \<and> calculate_dti (Fin 2000) (Fin 6000) = round_expression (Fin 2000) (Fin 6000)
   \<and> calculate_dti (Fin 2000) (Fin 6000) = Inr (round_double (3333 / 100))"
proof -
  have g: "float_gt (Fin 6000) (Fin 0)" and d: "float_ge (Fin 2000) (Fin 0)"
    by (simp_all add: float_eval)
  have c: "calculate_dti (Fin 2000) (Fin 6000) = Inr (round_double (3333 / 100))"
    by (simp add: calculate_dti_def float_eval)
  have e: "calculate_dti (Fin 2000) (Fin 6000) = round_expression (Fin 2000) (Fin 6000)"
    using dti_is_rounded_percentage [OF g d] by (rule conjunct1)
  from g d e c show ?thesis
    by (intro conjI)
qed

text \<open>
  C6, as amended. When the float product \<^verbatim>\<open>debts/income*100\<close>, as computed, has an exact
  value that lies half-way between two hundredths, \<^verbatim>\<open>calculate_dti\<close> returns the float
  nearest to the hundredth whose last digit is even.
\<close>

theorem float_tie_rounded_to_even:
  assumes "float_gt income (Fin 0)"
    and "float_mul (ieee_div debts income) (Fin 100) = Fin v"
    and "v * 100 = of_int k + 1 / 2"
  shows "calculate_dti debts income =
    Inr (round_double (of_int (if even k then k else k + 1) / 100))"
proof -
  have "calculate_dti debts income = Inr (py_round (Fin v) 2)"
    using assms(1,2) by (simp add: calculate_dti_success float_gt_zero_not_le)
  moreover have "round_half_even (v * 10 ^ 2) = (if even k then k else k + 1)"
    using assms(3) by (intro round_half_even_tie) simp
  ultimately show ?thesis
    by (simp add: py_round_def)
qed

text \<open>
  The products 0.125 and 0.375 are floats; they are rounded to 0.12 and to 0.38.
\<close>

theorem float_tie_rounded_to_even_witness:
  "float_gt (Fin 800) (Fin 0)
   \<and> float_mul (ieee_div (Fin 1) (Fin 800)) (Fin 100) = Fin (1 / 8)
   \<and> (1 / 8 :: rat) * 100 = of_int 12 + 1 / 2
   \<and> calculate_dti (Fin 1) (Fin 800) = Inr (round_double (12 / 100))
   \<and> float_mul (ieee_div (Fin 3) (Fin 800)) (Fin 100) = Fin (3 / 8)
   \<and> (3 / 8 :: rat) * 100 = of_int 37 + 1 / 2
   \<and> calculate_dti (Fin 3) (Fin 800) = Inr (round_double (38 / 100))"
proof -
  have g: "float_gt (Fin 800) (Fin 0)"
    by (simp add: float_eval)
  have m1: "float_mul (ieee_div (Fin 1) (Fin 800)) (Fin 100) = Fin (1 / 8)"
    by (simp add: float_eval)
  have t1: "(1 / 8 :: rat) * 100 = of_int 12 + 1 / 2"
    by simp
  have m3: "float_mul (ieee_div (Fin 3) (Fin 800)) (Fin 100) = Fin (3 / 8)"
    by (simp add: float_eval)
  have t3: "(3 / 8 :: rat) * 100 = of_int 37 + 1 / 2"
    by simp
  from float_tie_rounded_to_even [OF g m1 t1] float_tie_rounded_to_even [OF g m3 t3]
    g m1 t1 m3 t3
  show ?thesis by simp
qed

text \<open>
  C6, as stated, fails when the tie is in the exact ratio and not in the float: debts of 2675
  and an income of 100000 (both are floats) have the exact ratio 2.675, half-way between
  2.67 and 2.68, and the even hundredth is 2.68; the float product lies below 2.675 and
  \<^verbatim>\<open>calculate_dti\<close> returns the float nearest to 2.67.
\<close>

theorem exact_tie_not_rounded_to_even:
  "round_double 2675 = Fin 2675 \<and> round_double 100000 = Fin 100000
   \<and> (2675 / 100000 * 100 :: rat) * 100 = of_int 267 + 1 / 2
   \<and> calculate_dti (Fin 2675) (Fin 100000) = Inr (round_double (267 / 100))
   \<and> calculate_dti (Fin 2675) (Fin 100000) \<noteq> Inr (round_double (268 / 100))"
proof -
  have c: "calculate_dti (Fin 2675) (Fin 100000) =
      Inr (Fin (1503076375634903 / 562949953421312))"
    by (simp add: calculate_dti_def float_eval)
  have r7: "round_double (267 / 100) = Fin (1503076375634903 / 562949953421312)"
    by (simp add: float_eval)
  have r8: "round_double (268 / 100) = Fin (6034823500676465 / 2251799813685248)"
    by (simp add: float_eval)
  have i: "round_double 2675 = Fin 2675" "round_double 100000 = Fin 100000"
    by (simp_all add: float_eval)
  from c r7 r8 i show ?thesis
    by simp
qed

section \<open>Failures\<close>

text \<open>
  C4. \<^verbatim>\<open>calculate_dti\<close> fails exactly when the income is less than or equal to zero, whatever
  the debts are, and then with the \<^verbatim>\<open>ValueError\<close> of its check (the division never
  raises); \<^verbatim>\<open>evaluate_application\<close> fails exactly when \<^verbatim>\<open>calculate_dti\<close> fails on the
  debts and income of the request, and with the same error.
\<close>

theorem income_check_only_failure:
  "(calculate_dti d i = Inl e) =
     (float_le i (Fin 0) \<and> e = ValueError ''Monthly income must be greater than zero'')
   \<and> float_le (Fin q) (Fin 0) = (q \<le> 0)
   \<and> (evaluate_application float_str a = Inl e) =
     (calculate_dti (LoanApplicationRequest.monthly_debts a)
        (LoanApplicationRequest.monthly_income a) = Inl e)"
proof (intro conjI)
  show "(calculate_dti d i = Inl e) =
     (float_le i (Fin 0) \<and> e = ValueError ''Monthly income must be greater than zero'')"
    by (cases "float_le i (Fin 0)") (auto simp: calculate_dti_error calculate_dti_success)
  show "float_le (Fin q) (Fin 0) = (q \<le> 0)"
    by (auto simp: float_le_def float_eq_def)
  show "(evaluate_application float_str a = Inl e) =
     (calculate_dti (LoanApplicationRequest.monthly_debts a)
        (LoanApplicationRequest.monthly_income a) = Inl e)"
    by (simp add: evaluate_application_def split: sum.splits)
qed

text \<open>The failure at an income of zero and at a negative income, and its propagation.\<close>

theorem income_check_only_failure_witness:
  "calculate_dti (Fin 1000) (Fin 0) =
     Inl (ValueError ''Monthly income must be greater than zero'')
   \<and> calculate_dti (Fin 1000) (Fin (- 5000)) =
     Inl (ValueError ''Monthly income must be greater than zero'')
   \<and> calculate_dti (Fin 1000) (Fin 5000) \<noteq> Inl ZeroDivisionError
   \<and> evaluate_application float_repr
       (request_john_doe\<lparr>LoanApplicationRequest.monthly_income := Fin 0\<rparr>) =
     Inl (ValueError ''Monthly income must be greater than zero'')"
proof -
  let ?e = "ValueError ''Monthly income must be greater than zero''"
  let ?a = "request_john_doe\<lparr>LoanApplicationRequest.monthly_income := Fin 0\<rparr>"
  have 1: "calculate_dti (Fin 1000) (Fin 0) = Inl ?e"
    using income_check_only_failure [of "Fin 1000" "Fin 0" ?e 0] by simp
  have 2: "calculate_dti (Fin 1000) (Fin (- 5000)) = Inl ?e"
    using income_check_only_failure [of "Fin 1000" "Fin (- 5000)" ?e "- 5000"] by simp
  have 3: "calculate_dti (Fin 1000) (Fin 5000) \<noteq> Inl ZeroDivisionError"
    using income_check_only_failure [of "Fin 1000" "Fin 5000" ZeroDivisionError 5000] by simp
  have 4: "evaluate_application float_repr ?a = Inl ?e"
    using income_check_only_failure [of "Fin 1500" "Fin 0" ?e 0 float_repr ?a]
    by (simp add: request_john_doe_def)
  from 1 2 3 4 show ?thesis by simp
qed

section \<open>The fields of the result\<close>

lemma evaluate_application_result:
  "evaluate_application float_str a = Inr res \<Longrightarrow>
   calculate_dti (LoanApplicationRequest.monthly_debts a)
     (LoanApplicationRequest.monthly_income a) = Inr (LoanDecisionResponse.dti_ratio res)
   \<and> LoanDecisionResponse.credit_score res = LoanApplicationRequest.credit_score a"
  by (auto simp: evaluate_application_def split: sum.splits if_splits)

lemma evaluate_application_succeeds:
  "\<not> float_le (LoanApplicationRequest.monthly_income a) (Fin 0) \<Longrightarrow>
   \<exists>res. evaluate_application float_str a = Inr res"
  by (simp add: evaluate_application_def calculate_dti_success)

text \<open>
  C5. For a valid request the result of \<^verbatim>\<open>evaluate_application\<close>, whatever the decision
  is, carries as \<^verbatim>\<open>dti_ratio\<close> the value of \<^verbatim>\<open>calculate_dti\<close> on the debts and income of
  that request, and as \<^verbatim>\<open>credit_score\<close> the credit score of the request.
\<close>

theorem result_carries_ratio_and_score:
  assumes "valid_request a"
  shows "\<exists>res.
    evaluate_application float_str a = Inr res
    \<and> calculate_dti (LoanApplicationRequest.monthly_debts a)
        (LoanApplicationRequest.monthly_income a) = Inr (LoanDecisionResponse.dti_ratio res)
    \<and> LoanDecisionResponse.credit_score res = LoanApplicationRequest.credit_score a"
proof -
  from assms obtain res where "evaluate_application float_str a = Inr res"
    using evaluate_application_succeeds valid_request_income by blast
  then show ?thesis
    using evaluate_application_result by blast
qed

text \<open>The fields at the second application of the tests, which is declined.\<close>

theorem result_carries_ratio_and_score_witness:
  "valid_request request_jane_smith
   \<and> (\<exists>res. evaluate_application float_repr request_jane_smith = Inr res
        \<and> calculate_dti (Fin 1500) (Fin 5000) = Inr (LoanDecisionResponse.dti_ratio res)
        \<and> LoanDecisionResponse.dti_ratio res = Fin 30
        \<and> LoanDecisionResponse.credit_score res = 550)"
proof -
  have v: "valid_request request_jane_smith"
    by (simp add: request_jane_smith_def validate_eval float_eval)
  have d: "calculate_dti (Fin 1500) (Fin 5000) = Inr (Fin 30)"
    by (simp add: calculate_dti_def float_eval)
  from result_carries_ratio_and_score [OF v, of float_repr] d v show ?thesis
    by (auto simp: request_jane_smith_def)
qed

section \<open>Determinism\<close>

text \<open>
  The result depends on three fields of the request only: the debts, the income and the
  credit score.
\<close>

lemma evaluate_application_depends_on:
  assumes "LoanApplicationRequest.monthly_debts a = LoanApplicationRequest.monthly_debts b"
    and "LoanApplicationRequest.monthly_income a = LoanApplicationRequest.monthly_income b"
    and "LoanApplicationRequest.credit_score a = LoanApplicationRequest.credit_score b"
  shows "evaluate_application float_str a = evaluate_application float_str b"
  using assms by (simp add: evaluate_application_def split: sum.splits)

text \<open>
  C7. \<^verbatim>\<open>evaluate_application\<close> and \<^verbatim>\<open>calculate_dti\<close> read nothing but their arguments, so
  two calls with identical input give identical results: the same decision, message, ratio
  and credit score.
\<close>

theorem evaluation_deterministic:
  assumes "a = b" and "d = d'" and "i = i'"
  shows "evaluate_application float_str a = evaluate_application float_str b
    \<and> calculate_dti d i = calculate_dti d' i'"
  using assms by simp

text \<open>Two calls on the first application of the tests.\<close>

theorem evaluation_deterministic_witness:
  "request_john_doe = request_john_doe\<lparr>LoanApplicationRequest.credit_score := 720\<rparr>
   \<and> evaluate_application float_repr request_john_doe =
     evaluate_application float_repr
       (request_john_doe\<lparr>LoanApplicationRequest.credit_score := 720\<rparr>)
   \<and> calculate_dti (Fin 1500) (Fin 5000) = calculate_dti (Fin (3000 / 2)) (Fin (2500 * 2))"
proof -
  have e: "request_john_doe = request_john_doe\<lparr>LoanApplicationRequest.credit_score := 720\<rparr>"
    by (simp add: request_john_doe_def)
  have d: "Fin 1500 = Fin (3000 / 2)" and i: "Fin 5000 = Fin (2500 * 2)"
    by simp_all
  from evaluation_deterministic [OF e d i, of float_repr] e show ?thesis
    by simp
qed

section \<open>No failure after validation\<close>

text \<open>
  C9. With an income greater than zero the check of \<^verbatim>\<open>calculate_dti\<close> does not raise, and
  \<^verbatim>\<open>evaluate_application\<close> returns a result for every request that passed the validation.
\<close>

theorem validated_request_never_fails:
  "(float_gt i (Fin 0) \<longrightarrow> (\<exists>dti. calculate_dti d i = Inr dti))
   \<and> (valid_request a \<longrightarrow> (\<exists>res. evaluate_application float_str a = Inr res))"
  using calculate_dti_success [OF float_gt_zero_not_le]
    evaluate_application_succeeds [OF valid_request_income]
  by blast

text \<open>The first application of the tests passes the validation and is evaluated.\<close>

theorem validated_request_never_fails_witness:
  "float_gt (Fin 5000) (Fin 0)
   \<and> (\<exists>dti. calculate_dti (Fin 1500) (Fin 5000) = Inr dti)
   \<and> valid_request request_john_doe
   \<and> (\<exists>res. evaluate_application float_repr request_john_doe = Inr res)"
proof -
  have g: "float_gt (Fin 5000) (Fin 0)"
    by (simp add: float_gt_def)
  have v: "valid_request request_john_doe"
    by (simp add: request_john_doe_def validate_eval float_eval)
  from validated_request_never_fails [of "Fin 5000" "Fin 1500" request_john_doe float_repr] g v
  show ?thesis by blast
qed

section \<open>Validation\<close>

lemma report_names: "(loc \<in> fst ` set (report loc' r)) = (loc = loc' \<and> r \<noteq> None)"
  by (cases r) (auto simp: report_def)

lemma field_errors_names:
  "(loc \<in> fst ` set (field_errors body)) =
     (loc = ''applicant_name''
        \<and> check_applicant_name (LoanApplicationRequest.applicant_name body) \<noteq> None
      \<or> loc = ''monthly_income''
        \<and> check_monthly_income (LoanApplicationRequest.monthly_income body) \<noteq> None
      \<or> loc = ''monthly_debts''
        \<and> check_monthly_debts (LoanApplicationRequest.monthly_debts body) \<noteq> None
      \<or> loc = ''credit_score''
        \<and> check_credit_score (LoanApplicationRequest.credit_score body) \<noteq> None
      \<or> loc = ''loan_amount''
        \<and> check_loan_amount (LoanApplicationRequest.loan_amount body) \<noteq> None)"
  unfolding field_errors_def set_append image_Un Un_iff report_names
  by (simp only: disj_assoc)

lemma check_applicant_name_iff:
  "check_applicant_name v \<noteq> None \<longleftrightarrow> length v < 2 \<or> 100 < length v"
  by (simp add: check_applicant_name_def)

lemma check_monthly_income_iff: "check_monthly_income v \<noteq> None \<longleftrightarrow> \<not> float_gt v (Fin 0)"
  by (simp add: check_monthly_income_def)

lemma check_monthly_debts_iff: "check_monthly_debts v \<noteq> None \<longleftrightarrow> \<not> float_ge v (Fin 0)"
  by (simp add: check_monthly_debts_def)

lemma check_credit_score_iff: "check_credit_score v \<noteq> None \<longleftrightarrow> v < 300 \<or> 850 < v"
  by (auto simp: check_credit_score_def validate_credit_score_def)

lemma check_loan_amount_iff: "check_loan_amount v \<noteq> None \<longleftrightarrow> \<not> float_gt v (Fin 0)"
  by (simp add: check_loan_amount_def)

lemma float_le_zero_not_gt: "float_le v (Fin 0) \<Longrightarrow> \<not> float_gt v (Fin 0)"
  by (rule float_le_imp_not_gt)

lemma float_lt_zero_not_ge: "float_lt v (Fin 0) \<Longrightarrow> \<not> float_ge v (Fin 0)"
  by (cases v) (auto simp: float_ge_def float_le_def float_eq_def)

lemma not_nan_gt_iff: "v \<noteq> NaN \<Longrightarrow> (\<not> float_gt v (Fin 0)) = float_le v (Fin 0)"
  by (cases v) (auto simp: float_gt_def float_le_def float_eq_def)

lemma not_nan_ge_iff: "v \<noteq> NaN \<Longrightarrow> (\<not> float_ge v (Fin 0)) = float_lt v (Fin 0)"
  by (cases v) (auto simp: float_ge_def float_le_def float_eq_def)

text \<open>
  C8. The validation accepts a body exactly when every field is in range, and otherwise
  fails with the list of the fields that are not: the name is reported exactly when its
  length is below 2 or above 100, the income exactly when it is not greater than zero (so
  when it is zero or negative), the debts exactly when they are not at least zero (so when
  they are negative), the credit score exactly when it is below 300 or above 850, and the
  loan amount exactly when it is not greater than zero. A body with a reported field is
  answered with these field errors and \<^verbatim>\<open>evaluate_application\<close> is not called; a body
  without one is evaluated.
\<close>

theorem validation_rejects_out_of_range:
  fixes body :: LoanApplicationRequest
  defines "name \<equiv> LoanApplicationRequest.applicant_name body"
    and "income \<equiv> LoanApplicationRequest.monthly_income body"
    and "debts \<equiv> LoanApplicationRequest.monthly_debts body"
    and "score \<equiv> LoanApplicationRequest.credit_score body"
    and "loan \<equiv> LoanApplicationRequest.loan_amount body"
  shows "model_validate body =
      (if \<not> (length name < 2 \<or> 100 < length name) \<and> float_gt income (Fin 0)
          \<and> float_ge debts (Fin 0) \<and> \<not> (score < 300 \<or> 850 < score) \<and> float_gt loan (Fin 0)
       then Inr body else Inl (field_errors body))
    \<and> (''applicant_name'' \<in> fst ` set (field_errors body)) =
        (length name < 2 \<or> 100 < length name)
    \<and> (''monthly_income'' \<in> fst ` set (field_errors body)) = (\<not> float_gt income (Fin 0))
    \<and> (''monthly_debts'' \<in> fst ` set (field_errors body)) = (\<not> float_ge debts (Fin 0))
    \<and> (''credit_score'' \<in> fst ` set (field_errors body)) = (score < 300 \<or> 850 < score)
    \<and> (''loan_amount'' \<in> fst ` set (field_errors body)) = (\<not> float_gt loan (Fin 0))
    \<and> (float_le income (Fin 0) \<longrightarrow> ''monthly_income'' \<in> fst ` set (field_errors body))
    \<and> (float_lt debts (Fin 0) \<longrightarrow> ''monthly_debts'' \<in> fst ` set (field_errors body))
    \<and> (float_le loan (Fin 0) \<longrightarrow> ''loan_amount'' \<in> fst ` set (field_errors body))
    \<and> (field_errors body \<noteq> [] \<longrightarrow>
        simulate_approval API_KEY float_str (Some API_KEY) body =
          Inl (UnprocessableEntity (field_errors body)))
    \<and> (field_errors body = [] \<longrightarrow>
        simulate_approval API_KEY float_str (Some API_KEY) body =
          (case evaluate_application float_str body of
             Inl e \<Rightarrow> Inl (InternalServerError e) | Inr result \<Rightarrow> Inr result))"
proof -
  note iffs = check_applicant_name_iff check_monthly_income_iff check_monthly_debts_iff
    check_credit_score_iff check_loan_amount_iff
  note names = field_errors_names [of _ body, unfolded iffs,
      folded name_def income_def debts_def score_def loan_def]
  have nam: "(''applicant_name'' \<in> fst ` set (field_errors body)) =
      (length name < 2 \<or> 100 < length name)"
    by (simp add: names)
  have inc: "(''monthly_income'' \<in> fst ` set (field_errors body)) = (\<not> float_gt income (Fin 0))"
    by (simp add: names)
  have deb: "(''monthly_debts'' \<in> fst ` set (field_errors body)) = (\<not> float_ge debts (Fin 0))"
    by (simp add: names)
  have sco: "(''credit_score'' \<in> fst ` set (field_errors body)) = (score < 300 \<or> 850 < score)"
    by (simp add: names)
  have loa: "(''loan_amount'' \<in> fst ` set (field_errors body)) = (\<not> float_gt loan (Fin 0))"
    by (simp add: names)
  have inc': "float_le income (Fin 0) \<longrightarrow> ''monthly_income'' \<in> fst ` set (field_errors body)"
    using inc float_le_zero_not_gt by blast
  have deb': "float_lt debts (Fin 0) \<longrightarrow> ''monthly_debts'' \<in> fst ` set (field_errors body)"
    using deb float_lt_zero_not_ge by blast
  have loa': "float_le loan (Fin 0) \<longrightarrow> ''loan_amount'' \<in> fst ` set (field_errors body)"
    using loa float_le_zero_not_gt by blast
  have "(field_errors body = []) =
      (\<not> (length name < 2 \<or> 100 < length name) \<and> float_gt income (Fin 0)
       \<and> float_ge debts (Fin 0) \<and> \<not> (score < 300 \<or> 850 < score) \<and> float_gt loan (Fin 0))"
    using valid_request_iff [of body]
    unfolding valid_request_def model_validate_def name_def income_def debts_def score_def
      loan_def
    by (auto split: if_splits)
  then have val: "model_validate body =
      (if \<not> (length name < 2 \<or> 100 < length name) \<and> float_gt income (Fin 0)
          \<and> float_ge debts (Fin 0) \<and> \<not> (score < 300 \<or> 850 < score) \<and> float_gt loan (Fin 0)
       then Inr body else Inl (field_errors body))"
    by (simp add: model_validate_def)
  have rej: "field_errors body \<noteq> [] \<longrightarrow>
      simulate_approval API_KEY float_str (Some API_KEY) body =
        Inl (UnprocessableEntity (field_errors body))"
    by (simp add: simulate_approval_def verify_api_key_def model_validate_def)
  have acc: "field_errors body = [] \<longrightarrow>
      simulate_approval API_KEY float_str (Some API_KEY) body =
        (case evaluate_application float_str body of
           Inl e \<Rightarrow> Inl (InternalServerError e) | Inr result \<Rightarrow> Inr result)"
    by (simp add: simulate_approval_def verify_api_key_def model_validate_def)
  from val nam inc deb sco loa inc' deb' loa' rej acc show ?thesis
    by (intro conjI)
qed

text \<open>
  A body with five fields out of range is answered with five field errors, one for each
  field; the first application of the tests has none and is evaluated.
\<close>

theorem validation_rejects_out_of_range_witness:
  "float_le (LoanApplicationRequest.monthly_income request_out_of_range) (Fin 0)
   \<and> float_lt (LoanApplicationRequest.monthly_debts request_out_of_range) (Fin 0)
   \<and> float_le (LoanApplicationRequest.loan_amount request_out_of_range) (Fin 0)
   \<and> field_errors request_out_of_range =
       [(''applicant_name'', string_too_short), (''monthly_income'', greater_than),
        (''monthly_debts'', greater_than_equal), (''credit_score'', less_than_equal),
        (''loan_amount'', greater_than)]
   \<and> model_validate request_out_of_range = Inl (field_errors request_out_of_range)
   \<and> simulate_approval ''key'' float_repr (Some ''key'') request_out_of_range =
       Inl (UnprocessableEntity (field_errors request_out_of_range))
   \<and> field_errors request_john_doe = []
   \<and> model_validate request_john_doe = Inr request_john_doe
   \<and> simulate_approval ''key'' float_repr (Some ''key'') request_john_doe =
       (case evaluate_application float_repr request_john_doe of
          Inl e \<Rightarrow> Inl (InternalServerError e) | Inr result \<Rightarrow> Inr result)"
proof -
  have f: "field_errors request_out_of_range =
       [(''applicant_name'', string_too_short), (''monthly_income'', greater_than),
        (''monthly_debts'', greater_than_equal), (''credit_score'', less_than_equal),
        (''loan_amount'', greater_than)]"
    by (simp add: request_out_of_range_def validate_eval float_eval)
  have g: "field_errors request_john_doe = []"
    by (simp add: request_john_doe_def validate_eval float_eval)
  have h: "float_le (LoanApplicationRequest.monthly_income request_out_of_range) (Fin 0)"
    "float_lt (LoanApplicationRequest.monthly_debts request_out_of_range) (Fin 0)"
    "float_le (LoanApplicationRequest.loan_amount request_out_of_range) (Fin 0)"
    by (simp_all add: request_out_of_range_def float_eval)
  have ne: "field_errors request_out_of_range \<noteq> []"
    by (simp add: f)
  note bad = validation_rejects_out_of_range [of request_out_of_range "''key''" float_repr]
  note good = validation_rejects_out_of_range [of request_john_doe "''key''" float_repr]
  have 1: "simulate_approval ''key'' float_repr (Some ''key'') request_out_of_range =
       Inl (UnprocessableEntity (field_errors request_out_of_range))"
    using bad ne by blast
  have 2: "simulate_approval ''key'' float_repr (Some ''key'') request_john_doe =
       (case evaluate_application float_repr request_john_doe of
          Inl e \<Rightarrow> Inl (InternalServerError e) | Inr result \<Rightarrow> Inr result)"
    using good g by blast
  have 3: "model_validate request_out_of_range = Inl (field_errors request_out_of_range)"
    using ne by (simp add: model_validate_def)
  have 4: "model_validate request_john_doe = Inr request_john_doe"
    using g by (simp add: model_validate_def)
  from h f 3 1 g 4 2 show ?thesis
    by (intro conjI)
qed

section \<open>The stored row\<close>

lemma model_validate_Inr: "model_validate body = Inr application \<Longrightarrow> application = body"
  by (simp add: model_validate_def split: if_splits)

lemma create_application_failure:
  "create_application API_KEY float_str now api_key body table = (Inl e, table') \<Longrightarrow>
   table' = table"
  by (auto simp: create_application_def add_commit_refresh_def Let_def
      split: sum.splits)

lemma create_application_success:
  assumes "create_application API_KEY float_str now api_key body table = (Inr answer, table')"
  shows "\<exists>result.
    evaluate_application float_str body = Inr result
    \<and> table' = table @
        [\<lparr>LoanApplication.id' = Some (next_id table),
          LoanApplication.applicant_name = LoanApplicationRequest.applicant_name body,
          LoanApplication.monthly_income = LoanApplicationRequest.monthly_income body,
          LoanApplication.monthly_debts = LoanApplicationRequest.monthly_debts body,
          LoanApplication.credit_score = LoanApplicationRequest.credit_score body,
          LoanApplication.loan_amount = LoanApplicationRequest.loan_amount body,
          LoanApplication.dti_ratio = LoanDecisionResponse.dti_ratio result,
          LoanApplication.decision = LoanDecisionResponse.decision result,
          LoanApplication.decision_message = LoanDecisionResponse.message result,
          LoanApplication.created_at = now\<rparr>]"
  using assms
  by (auto simp: create_application_def add_commit_refresh_def Let_def
      split: sum.splits dest: model_validate_Inr)

text \<open>
  C10. A call of \<^verbatim>\<open>create_application\<close> leaves the table as it was or appends one row.
  The input fields of an appended row are those of the request, and its ratio, decision and
  message are those of the result \<^verbatim>\<open>evaluate_application\<close> gives for these stored input
  fields.
\<close>

theorem stored_row_consistent:
  assumes "create_application API_KEY float_str now api_key body table = (answer, table')"
  shows "table' = table
    \<or> (\<exists>row result. table' = table @ [row]
          \<and> stored_request row = body
          \<and> evaluate_application float_str (stored_request row) = Inr result
          \<and> LoanApplication.dti_ratio row = LoanDecisionResponse.dti_ratio result
          \<and> LoanApplication.decision row = LoanDecisionResponse.decision result
          \<and> LoanApplication.decision_message row = LoanDecisionResponse.message result)"
proof (cases answer)
  case (Inl e)
  with assms show ?thesis
    by (simp add: create_application_failure)
next
  case (Inr a)
  let ?row = "\<lambda>result.
        \<lparr>LoanApplication.id' = Some (next_id table),
          LoanApplication.applicant_name = LoanApplicationRequest.applicant_name body,
          LoanApplication.monthly_income = LoanApplicationRequest.monthly_income body,
          LoanApplication.monthly_debts = LoanApplicationRequest.monthly_debts body,
          LoanApplication.credit_score = LoanApplicationRequest.credit_score body,
          LoanApplication.loan_amount = LoanApplicationRequest.loan_amount body,
          LoanApplication.dti_ratio = LoanDecisionResponse.dti_ratio result,
          LoanApplication.decision = LoanDecisionResponse.decision result,
          LoanApplication.decision_message = LoanDecisionResponse.message result,
          LoanApplication.created_at = now\<rparr>"
  from Inr assms obtain result where
    ev: "evaluate_application float_str body = Inr result"
    and tab: "table' = table @ [?row result]"
    using create_application_success by blast
  have req: "stored_request (?row result) = body"
    by (simp add: stored_request_def)
  have "table' = table @ [?row result]
      \<and> stored_request (?row result) = body
      \<and> evaluate_application float_str (stored_request (?row result)) = Inr result
      \<and> LoanApplication.dti_ratio (?row result) = LoanDecisionResponse.dti_ratio result
      \<and> LoanApplication.decision (?row result) = LoanDecisionResponse.decision result
      \<and> LoanApplication.decision_message (?row result) = LoanDecisionResponse.message result"
    using tab ev req by simp
  then show ?thesis
    by blast
qed

text \<open>The row stored for the third application of the tests in an empty table.\<close>

theorem stored_row_consistent_witness:
  "create_application ''key'' float_repr 1700000000 (Some ''key'') request_bob_johnson [] =
     (Inr \<lparr>created.id' = Some 1,
           created.decision = ''declined'',
           created.message = ''Debt-to-income ratio of 50.0% exceeds maximum of 45%.'',
           created.dti_ratio = Fin 50,
           created.created_at = 1700000000\<rparr>,
      [\<lparr>LoanApplication.id' = Some 1,
        LoanApplication.applicant_name = map of_char ''Bob Johnson'',
        LoanApplication.monthly_income = Fin 5000,
        LoanApplication.monthly_debts = Fin 2500,
        LoanApplication.credit_score = 720,
        LoanApplication.loan_amount = Fin 250000,
        LoanApplication.dti_ratio = Fin 50,
        LoanApplication.decision = ''declined'',
        LoanApplication.decision_message =
          ''Debt-to-income ratio of 50.0% exceeds maximum of 45%.'',
        LoanApplication.created_at = 1700000000\<rparr>])
   \<and> (\<exists>row result.
        [\<lparr>LoanApplication.id' = Some 1,
          LoanApplication.applicant_name = map of_char ''Bob Johnson'',
          LoanApplication.monthly_income = Fin 5000,
          LoanApplication.monthly_debts = Fin 2500,
          LoanApplication.credit_score = 720,
          LoanApplication.loan_amount = Fin 250000,
          LoanApplication.dti_ratio = Fin 50,
          LoanApplication.decision = ''declined'',
          LoanApplication.decision_message =
            ''Debt-to-income ratio of 50.0% exceeds maximum of 45%.'',
          LoanApplication.created_at = 1700000000\<rparr>] = [] @ [row]
        \<and> stored_request row = request_bob_johnson
        \<and> evaluate_application float_repr (stored_request row) = Inr result
        \<and> LoanApplication.dti_ratio row = LoanDecisionResponse.dti_ratio result
        \<and> LoanApplication.decision row = LoanDecisionResponse.decision result
        \<and> LoanApplication.decision_message row = LoanDecisionResponse.message result)"
proof -
  let ?row = "\<lparr>LoanApplication.id' = Some 1,
        LoanApplication.applicant_name = map of_char ''Bob Johnson'',
        LoanApplication.monthly_income = Fin 5000,
        LoanApplication.monthly_debts = Fin 2500,
        LoanApplication.credit_score = 720,
        LoanApplication.loan_amount = Fin 250000,
        LoanApplication.dti_ratio = Fin 50,
        LoanApplication.decision = ''declined'',
        LoanApplication.decision_message =
          ''Debt-to-income ratio of 50.0% exceeds maximum of 45%.'',
        LoanApplication.created_at = 1700000000\<rparr>"
  let ?answer = "\<lparr>created.id' = Some 1,
           created.decision = ''declined'',
           created.message = ''Debt-to-income ratio of 50.0% exceeds maximum of 45%.'',
           created.dti_ratio = Fin 50,
           created.created_at = 1700000000\<rparr>"
  have v: "model_validate request_bob_johnson = Inr request_bob_johnson"
    by (simp add: request_bob_johnson_def validate_eval float_eval)
  have d: "calculate_dti (Fin 2500) (Fin 5000) = Inr (Fin 50)"
    by (simp add: calculate_dti_def float_eval)
  have r: "float_repr (Fin 50) = ''50.0''"
    by (simp add: repr_eval float_eval)
  have e: "evaluate_application float_repr request_bob_johnson =
      Inr \<lparr>LoanDecisionResponse.decision = ''declined'',
           LoanDecisionResponse.message =
             ''Debt-to-income ratio of 50.0% exceeds maximum of 45%.'',
           LoanDecisionResponse.dti_ratio = Fin 50,
           LoanDecisionResponse.credit_score = 720\<rparr>"
    using d r by (simp add: evaluate_application_def request_bob_johnson_def float_gt_def)
  have c: "create_application ''key'' float_repr 1700000000 (Some ''key'')
      request_bob_johnson [] = (Inr ?answer, [?row])"
    using v e
    by (simp add: create_application_def verify_api_key_def add_commit_refresh_def
        next_id_def request_bob_johnson_def Let_def)
  have ne: "[?row] \<noteq> []"
    by simp
  from stored_row_consistent [OF c] ne
  have ex: "\<exists>row result. [?row] = [] @ [row]
      \<and> stored_request row = request_bob_johnson
      \<and> evaluate_application float_repr (stored_request row) = Inr result
      \<and> LoanApplication.dti_ratio row = LoanDecisionResponse.dti_ratio result
      \<and> LoanApplication.decision row = LoanDecisionResponse.decision result
      \<and> LoanApplication.decision_message row = LoanDecisionResponse.message result"
    by blast
  from c ex show ?thesis
    by (rule conjI)
qed

end
